theory Spec2Isabelle
  imports Complex_Main
begin

section \<open>Image canvas objects of ginga (ginga/canvas/types/image.py)\<close>

text \<open>
  A shallow embedding of the classes \<^verbatim>\<open>ImageP\<close> and \<^verbatim>\<open>NormImageP\<close>.
  Python floats are modelled as exact reals (so \<^verbatim>\<open>int()\<close>, \<^verbatim>\<open>np.ceil\<close>,
  \<^verbatim>\<open>np.min\<close>, comparison are exact, and float rounding in products and
  quotients is abstracted away; NaN and infinities are not values of the model).
  Mutation of \<^verbatim>\<open>self\<close> is explicit state passing, an exception is a value.
  The timing and logging calls of the draws are left out. The package is Python 3 code
  (its \<^verbatim>\<open>setup.py\<close> imports \<^verbatim>\<open>builtins\<close> and \<^verbatim>\<open>configparser\<close>), so \<^verbatim>\<open>/\<close> is
  true division.
\<close>

subsection \<open>Values, errors, arrays\<close>

type_synonym point = "real \<times> real"

text \<open>
  The exceptions of the module and of the numpy operations it uses: the two
  \<^verbatim>\<open>ValueError\<close>s the module raises itself, numpy's \<^verbatim>\<open>ValueError\<close> for an
  assignment whose right-hand side cannot be broadcast, and \<^verbatim>\<open>IndexError\<close>.
\<close>

datatype message =
  Images_cannot_be_rotated | No_point_corresponding_to_index int | Could_not_broadcast

datatype error = ValueError message | IndexError

text \<open>numpy dtypes: unsigned and signed integers of a bit width, and 64-bit floats.\<close>

datatype dtype = UInt nat | SInt nat | Float64

text \<open>
  A pixel array of shape (height, width, depth) is a list of rows of pixels, a pixel being
  the list of its channel samples; a plane of shape (height, width) is a list of rows of
  samples.
\<close>

record ndarray =
  dtype :: dtype
  pix :: "real list list list"

record plane =
  pdtype :: dtype
  samples :: "real list list"

subsection \<open>Collaborators: image, colour mapper, viewer\<close>

record image =
  width :: int
  height :: int
  order :: string

record rgbmap =
  maxc :: real
  rdtype :: dtype
  hash_size :: int

text \<open>
  What a draw reads from the viewer. \<open>vid\<close> is the identity of the viewer object, the key
  of the cache dictionary; \<open>settings\<close> is the settings dictionary of
  \<^verbatim>\<open>get_settings()\<close>; \<open>v_cuts\<close> is \<^verbatim>\<open>t_['cuts']\<close>; an auto-cuts object is
  named by a number.
\<close>

record viewer =
  vid :: nat
  draw_rect :: "point list"
  scale_xy :: point
  settings :: "(string \<times> string) list"
  pan :: point
  data_off :: real
  rgb_order :: string
  v_rgbmap :: rgbmap
  v_autocuts :: nat
  v_cuts :: "real \<times> real"

subsection \<open>The per-viewer cache entry and the canvas object\<close>

text \<open>
  The cache entry is the \<^verbatim>\<open>Bunch\<close> of \<^verbatim>\<open>get_cache\<close>. The raw variant only ever
  sets \<open>cutout\<close>, \<open>drawn\<close> and \<open>cvs_pos\<close>; in its entries the other three fields stay
  \<open>None\<close>.
\<close>

record cache_entry =
  cutout :: "ndarray option"
  alpha :: "plane option"
  prergb :: "ndarray option"
  rgbarr :: "ndarray option"
  drawn :: bool
  cvs_pos :: "int \<times> int"

datatype obj_kind = ImageK | NormImageK

text \<open>
  The attributes of \<^verbatim>\<open>ImageP\<close> (\<open>kind = ImageK\<close>) and \<^verbatim>\<open>NormImageP\<close>
  (\<open>kind = NormImageK\<close>, which adds \<open>o_rgbmap\<close>, \<open>cuts\<close>, \<open>autocuts\<close>). The attributes
  \<^verbatim>\<open>x\<close>, \<^verbatim>\<open>y\<close>, \<^verbatim>\<open>image\<close>, \<^verbatim>\<open>alpha\<close> and \<^verbatim>\<open>rgbmap\<close> of the object are the
  fields \<open>obj_x\<close>, \<open>obj_y\<close>, \<open>img\<close>, \<open>opacity\<close> and \<open>o_rgbmap\<close>.
\<close>

record image_obj =
  kind :: obj_kind
  obj_x :: real
  obj_y :: real
  img :: "image option"
  opacity :: real
  scale_x :: real
  scale_y :: real
  interpolation :: "string option"
  linewidth :: int
  showcap :: bool
  flipy :: bool
  optimize :: bool
  o_rgbmap :: "rgbmap option"
  cuts :: "(real \<times> real) option"
  autocuts :: "nat option"
  cache :: "nat \<rightharpoonup> cache_entry"
  zorder :: int
  editable :: bool

text \<open>The \<^verbatim>\<open>detail\<close> bunch filled by \<^verbatim>\<open>setup_edit\<close>.\<close>

record detail =
  center_pos :: point
  detail_scale_x :: real
  detail_scale_y :: real

subsection \<open>Code of the repository outside this file, taken as parameters\<close>

text \<open>
  The module uses functions of \<^verbatim>\<open>trcalc\<close>, of the image, the colour mapper, the
  auto-cuts object, the coordinate mapper and of \<^verbatim>\<open>CanvasObjectBase\<close> that are not
  part of it. They are parameters of the model, pure functions of their arguments:
  \<^item> \<open>interpolation_methods\<close>: \<^verbatim>\<open>trcalc.interpolation_methods\<close>;
  \<^item> \<open>calc_image_merge_clip\<close>: \<^verbatim>\<open>trcalc.calc_image_merge_clip(p1, p2, dst, q1, q2)\<close>,
    returning \<open>(dst, (a1, b1), (a2, b2))\<close>;
  \<^item> \<open>to_data\<close>: \<^verbatim>\<open>self.crdmap.to_data\<close>;
  \<^item> \<open>get_scaled_cutout2\<close>: the \<^verbatim>\<open>.data\<close> of
    \<^verbatim>\<open>image.get_scaled_cutout2(p1, p2, scales, method=interp)\<close>;
  \<^item> \<open>cut_levels\<close>: \<^verbatim>\<open>autocuts.cut_levels(data, loval, hival, vmin=, vmax=)\<close>;
  \<^item> \<open>get_rgbarray\<close>: \<^verbatim>\<open>rgbmap.get_rgbarray(idx, order=, image_order=)\<close> followed by
    \<^verbatim>\<open>.get_array(dst_order)\<close>;
  \<^item> \<open>issubdtype_uint\<close>: \<^verbatim>\<open>np.issubdtype(dt, np.dtype('uint'))\<close>, whose answer for the
    narrower unsigned dtypes depends on the numpy release;
  \<^item> \<open>get_minmax_dtype\<close>: \<^verbatim>\<open>trcalc.get_minmax_dtype(dtype)\<close>, the pair \<open>(mn, mx)\<close>;
  \<^item> \<open>move_to_pt\<close>: \<^verbatim>\<open>self.move_to_pt(pt)\<close>, as a function from the object before the
    call to the object after it;
  \<^item> \<open>calc_dual_scale_from_pt\<close>: \<^verbatim>\<open>self.calc_dual_scale_from_pt(pt, detail)\<close>.
\<close>

record env =
  interpolation_methods :: "string list"
  calc_image_merge_clip ::
    "point \<Rightarrow> point \<Rightarrow> point \<Rightarrow> point \<Rightarrow> point \<Rightarrow> point \<times> point \<times> point"
  to_data :: "point \<Rightarrow> point"
  get_scaled_cutout2 :: "image \<Rightarrow> point \<Rightarrow> point \<Rightarrow> point \<Rightarrow> string \<Rightarrow> ndarray"
  cut_levels :: "nat \<Rightarrow> ndarray \<Rightarrow> real \<Rightarrow> real \<Rightarrow> real \<Rightarrow> real \<Rightarrow> ndarray"
  get_rgbarray :: "rgbmap \<Rightarrow> ndarray \<Rightarrow> string \<Rightarrow> string \<Rightarrow> ndarray"
  issubdtype_uint :: "dtype \<Rightarrow> bool"
  get_minmax_dtype :: "dtype \<Rightarrow> real \<times> real"
  move_to_pt :: "image_obj \<Rightarrow> point \<Rightarrow> image_obj"
  calc_dual_scale_from_pt :: "image_obj \<Rightarrow> point \<Rightarrow> detail \<Rightarrow> real \<times> real"

subsection \<open>Cache reset\<close>

text \<open>
  \<^verbatim>\<open>ImageP._reset_cache\<close> sets \<open>cutout\<close>, \<open>drawn\<close>, \<open>cvs_pos\<close>;
  \<^verbatim>\<open>NormImageP._reset_cache\<close> overrides it and sets all six fields.
\<close>

definition reset_cache :: "obj_kind \<Rightarrow> cache_entry \<Rightarrow> cache_entry" where
  "reset_cache k c =
     (case k of
        ImageK \<Rightarrow> c\<lparr>cutout := None, drawn := False, cvs_pos := (0, 0)\<rparr>
      | NormImageK \<Rightarrow> c\<lparr>cutout := None, alpha := None, prergb := None, rgbarr := None,
                        drawn := False, cvs_pos := (0, 0)\<rparr>)"

text \<open>A fresh \<^verbatim>\<open>Bunch.Bunch()\<close> has no attribute; after the reset it has those set.\<close>

definition empty_bunch :: cache_entry where
  "empty_bunch = \<lparr>cutout = None, alpha = None, prergb = None, rgbarr = None,
                   drawn = False, cvs_pos = (0, 0)\<rparr>"

definition reset_optimize :: "image_obj \<Rightarrow> image_obj" where
  "reset_optimize ob = ob\<lparr>cache := (\<lambda>v. map_option (reset_cache (kind ob)) (cache ob v))\<rparr>"

subsection \<open>Rotation and editing\<close>

definition rotate_obj :: "image_obj \<Rightarrow> real \<Rightarrow> real \<Rightarrow> real \<Rightarrow> error + image_obj" where
  "rotate_obj ob theta xoff yoff = Inl (ValueError Images_cannot_be_rotated)"

text \<open>
  \<^verbatim>\<open>set_edit_point\<close> returns the exception raised, if any, and the object as the
  call leaves it.
\<close>

definition set_edit_point ::
  "env \<Rightarrow> int \<Rightarrow> point \<Rightarrow> detail \<Rightarrow> image_obj \<Rightarrow> error option \<times> image_obj" where
  "set_edit_point E i pt d ob =
     (if i = 0 then (None, reset_optimize (move_to_pt E ob pt))
      else if i = 1 then
        (let (sx, sy) = calc_dual_scale_from_pt E ob pt d
         in (None, reset_optimize (ob\<lparr>scale_x := detail_scale_x d * sx\<rparr>)))
      else if i = 2 then
        (let (sx, sy) = calc_dual_scale_from_pt E ob pt d
         in (None, reset_optimize (ob\<lparr>scale_y := detail_scale_y d * sy\<rparr>)))
      else if i = 3 then
        (let (sx, sy) = calc_dual_scale_from_pt E ob pt d
         in (None, reset_optimize (ob\<lparr>scale_x := detail_scale_x d * sx,
                                      scale_y := detail_scale_y d * sy\<rparr>)))
      else (Some (ValueError (No_point_corresponding_to_index i)), ob))"

subsection \<open>Python and numpy primitives\<close>

text \<open>\<^verbatim>\<open>int(r)\<close> of a float truncates toward zero.\<close>

definition py_int :: "real \<Rightarrow> int" where
  "py_int r = (if 0 \<le> r then \<lfloor>r\<rfloor> else \<lceil>r\<rceil>)"

text \<open>\<^verbatim>\<open>np.round\<close> rounds to the nearest integer, a half to the even neighbour.\<close>

definition np_round :: "real \<Rightarrow> real" where
  "np_round r =
     (let f = \<lfloor>r\<rfloor>; d = r - of_int f
      in if d < 1 / 2 then of_int f
         else if 1 / 2 < d then of_int (f + 1)
         else if even f then of_int f else of_int (f + 1))"

definition np_ceil :: "real \<Rightarrow> real" where
  "np_ceil r = of_int \<lceil>r\<rceil>"

text \<open>\<^verbatim>\<open>np.min\<close> and \<^verbatim>\<open>np.max\<close> of a non-empty sequence.\<close>

definition np_min :: "real list \<Rightarrow> real" where
  "np_min rs = fold min (tl rs) (hd rs)"

definition np_max :: "real list \<Rightarrow> real" where
  "np_max rs = fold max (tl rs) (hd rs)"

text \<open>\<^verbatim>\<open>s.index(ch)\<close> where \<^verbatim>\<open>ch in s\<close> has been tested.\<close>

fun str_index :: "string \<Rightarrow> char \<Rightarrow> nat" where
  "str_index [] ch = 0"
| "str_index (c # cs) ch = (if c = ch then 0 else Suc (str_index cs ch))"

text \<open>
  \<^verbatim>\<open>.astype(dt)\<close> of a float value: an integer dtype truncates toward zero and wraps
  into its range, a float dtype keeps the value.
\<close>

definition astype :: "dtype \<Rightarrow> real \<Rightarrow> real" where
  "astype dt r =
     (case dt of
        UInt w \<Rightarrow> of_int (py_int r mod 2 ^ w)
      | SInt w \<Rightarrow> of_int ((py_int r + 2 ^ (w - 1)) mod 2 ^ w - 2 ^ (w - 1))
      | Float64 \<Rightarrow> r)"

definition astype_array :: "dtype \<Rightarrow> ndarray \<Rightarrow> ndarray" where
  "astype_array dt a = \<lparr>dtype = dt, pix = map (map (map (astype dt))) (pix a)\<rparr>"

text \<open>\<^verbatim>\<open>np.flipud\<close> reverses the rows.\<close>

definition flipud :: "ndarray \<Rightarrow> ndarray" where
  "flipud a = a\<lparr>pix := rev (pix a)\<rparr>"

text \<open>
  \<^verbatim>\<open>a[..., i]\<close>: the plane of channel \<open>i\<close>; \<^verbatim>\<open>IndexError\<close> when a pixel has no
  channel \<open>i\<close>. (An array without pixels shows no depth in this representation, and the
  test passes for it.)
\<close>

definition take_channel :: "nat \<Rightarrow> real list list list \<Rightarrow> error + real list list" where
  "take_channel i rows =
     (if list_all (list_all (\<lambda>px. i < length px)) rows
      then Inr (map (map (\<lambda>px. px ! i)) rows)
      else Inl IndexError)"

text \<open>\<^verbatim>\<open>a[..., 0:i]\<close>: the first \<open>i\<close> channels of every pixel; a slice never raises.\<close>

definition first_channels :: "nat \<Rightarrow> ndarray \<Rightarrow> ndarray" where
  "first_channels i a = a\<lparr>pix := map (map (take i)) (pix a)\<rparr>"

text \<open>numpy broadcasting of one axis to length \<open>n\<close>: the same length, or length one.\<close>

definition bcast :: "nat \<Rightarrow> 'a list \<Rightarrow> 'a list option" where
  "bcast n xs =
     (if length xs = n then Some xs
      else if length xs = 1 then Some (replicate n (hd xs))
      else None)"

text \<open>
  \<^verbatim>\<open>a[..., i] = p\<close>: the plane \<open>p\<close>, broadcast to the height and width of \<open>a\<close> and cast
  to the dtype of \<open>a\<close>, replaces channel \<open>i\<close>.
\<close>

definition set_channel :: "nat \<Rightarrow> plane \<Rightarrow> ndarray \<Rightarrow> error + ndarray" where
  "set_channel i p a =
     (if \<not> list_all (list_all (\<lambda>px. i < length px)) (pix a) then Inl IndexError
      else
        (case bcast (length (pix a)) (samples p) of
           None \<Rightarrow> Inl (ValueError Could_not_broadcast)
         | Some prows \<Rightarrow>
             (case those (map2 (\<lambda>arow prow. bcast (length arow) prow) (pix a) prows) of
                None \<Rightarrow> Inl (ValueError Could_not_broadcast)
              | Some prows' \<Rightarrow>
                  Inr (a\<lparr>pix := map2 (map2 (\<lambda>px s. px[i := astype (dtype a) s]))
                                      (pix a) prows'\<rparr>))))"

subsection \<open>The cutout stage: \<^verbatim>\<open>ImageP._common_draw\<close>\<close>

text \<open>
  Lines 173 to 177: the integer bounding box of the viewer's draw rectangle.
  \<^verbatim>\<open>pts[0]\<close> raises \<^verbatim>\<open>IndexError\<close> for a rectangle without points.
\<close>

definition draw_bbox :: "point list \<Rightarrow> error + (int \<times> int \<times> int \<times> int)" where
  "draw_bbox rect =
     (if rect = [] then Inl IndexError
      else
        (let xs = map fst rect; ys = map snd rect;
             xmin = py_int (np_min xs);
             ymin = py_int (np_min ys);
             xmax = py_int (np_ceil (np_max xs));
             ymax = py_int (np_ceil (np_max ys))
         in Inr (xmin, ymin, xmax, ymax)))"

text \<open>Lines 203 to 212: the interpolation method handed to the image.\<close>

definition select_interp :: "env \<Rightarrow> image_obj \<Rightarrow> viewer \<Rightarrow> string" where
  "select_interp E ob v =
     (let interp = (case interpolation ob of
                      None \<Rightarrow> (case map_of (settings v) ''interpolation'' of
                                 None \<Rightarrow> ''basic'' | Some s \<Rightarrow> s)
                    | Some s \<Rightarrow> s)
      in if interp \<notin> set (interpolation_methods E) then ''basic'' else interp)"

text \<open>Lines 182 to 190: the source region of the image that can appear in the window.\<close>

definition clip_region :: "env \<Rightarrow> image_obj \<Rightarrow> image \<Rightarrow> int \<times> int \<times> int \<times> int \<Rightarrow> point \<times> point \<times> point" where
  "clip_region E ob im bb =
     (case bb of (xmin, ymin, xmax, ymax) \<Rightarrow>
        calc_image_merge_clip E (of_int xmin, of_int ymin) (of_int xmax, of_int ymax)
          (to_data E (obj_x ob, obj_y ob))
          (0, 0) (of_int (width im - 1), of_int (height im - 1)))"

text \<open>Lines 222 to 236: the position of the cutout in the destination array.\<close>

definition calc_cvs_pos :: "viewer \<Rightarrow> nat \<times> nat \<times> nat \<Rightarrow> point \<Rightarrow> int \<times> int" where
  "calc_cvs_pos v shape dst =
     (case (dst, scale_xy v, pan v, shape) of
        ((dst_x, dst_y), (sx, sy), (pan_x, pan_y), (ht, wd, dp)) \<Rightarrow>
          (let pan_off = data_off v;
               off_x = (dst_x - (pan_x + pan_off)) * sx;
               off_y = (dst_y - (pan_y + pan_off)) * sy
           in (py_int (np_round (real wd / 2 + off_x)),
               py_int (np_round (real ht / 2 + off_y)))))"

text \<open>
  \<^verbatim>\<open>_common_draw(viewer, dstarr, cache, whence)\<close>. Only the shape of \<^verbatim>\<open>dstarr\<close> is
  read. The one exception is raised before the cache entry is touched, so the result is
  the exception or the entry as the call leaves it.
\<close>

definition common_draw ::
  "env \<Rightarrow> image_obj \<Rightarrow> viewer \<Rightarrow> nat \<times> nat \<times> nat \<Rightarrow> cache_entry \<Rightarrow> real \<Rightarrow> error + cache_entry" where
  "common_draw E ob v shape c whence =
     (case img ob of
        None \<Rightarrow> Inr c
      | Some im \<Rightarrow>
          if whence \<le> 0 \<or> cutout c = None \<or> \<not> optimize ob then
            (case draw_bbox (draw_rect v) of
               Inl e \<Rightarrow> Inl e
             | Inr bb \<Rightarrow>
                 (case clip_region E ob im bb of
                    (dst, (a1, b1), (a2, b2)) \<Rightarrow>
                      if a2 - a1 \<le> 0 \<or> b2 - b1 \<le> 0 then Inr (c\<lparr>cutout := None\<rparr>)
                      else
                        (let (sx, sy) = scale_xy v;
                             scales = (sx * scale_x ob, sy * scale_y ob);
                             res = get_scaled_cutout2 E im (a1, b1) (a2, b2) scales
                                     (select_interp E ob v);
                             data = (if flipy ob then flipud res else res)
                         in Inr (c\<lparr>cutout := Some data,
                                    cvs_pos := calc_cvs_pos v shape dst\<rparr>))))
          else Inr c)"

subsection \<open>The cache dictionary and the compositor call\<close>

text \<open>
  \<^verbatim>\<open>get_cache\<close> returns the viewer's entry, creating it on first use. The entry is
  a mutable object held by the dictionary: \<open>put_cache\<close> writes back the entry as a
  stage has changed it.
\<close>

definition get_cache :: "image_obj \<Rightarrow> viewer \<Rightarrow> cache_entry \<times> image_obj" where
  "get_cache ob v =
     (case cache ob (vid v) of
        Some c \<Rightarrow> (c, ob)
      | None \<Rightarrow>
          (let c = reset_cache (kind ob) empty_bunch
           in (c, ob\<lparr>cache := (cache ob)(vid v \<mapsto> c)\<rparr>)))"

definition put_cache :: "image_obj \<Rightarrow> viewer \<Rightarrow> cache_entry \<Rightarrow> image_obj" where
  "put_cache ob v c = ob\<lparr>cache := (cache ob)(vid v \<mapsto> c)\<rparr>"

text \<open>
  The arguments of one call of \<^verbatim>\<open>trcalc.overlay_image(dstarr, pos, src, dst_order=,
  src_order=, alpha=, fill=True, flipy=False)\<close>, the compositor. A draw ends with an
  exception, or returns having called the compositor once or not at all.
\<close>

record overlay_args =
  pos :: "int \<times> int"
  src :: ndarray
  dst_order :: string
  src_order :: string
  ov_alpha :: real
  ov_fill :: bool
  ov_flipy :: bool

datatype outcome = Raised error | Returned "overlay_args option"

subsection \<open>\<^verbatim>\<open>ImageP.draw_image\<close>\<close>

definition draw_image_raw ::
  "env \<Rightarrow> image_obj \<Rightarrow> viewer \<Rightarrow> nat \<times> nat \<times> nat \<Rightarrow> real \<Rightarrow> outcome \<times> image_obj" where
  "draw_image_raw E ob v shape whence =
     (case img ob of
        None \<Rightarrow> (Returned None, ob)
      | Some im \<Rightarrow>
          (case get_cache ob v of
             (c, ob1) \<Rightarrow>
               (case common_draw E ob1 v shape c whence of
                  Inl e \<Rightarrow> (Raised e, ob1)
                | Inr c1 \<Rightarrow>
                    (case cutout c1 of
                       None \<Rightarrow> (Returned None, put_cache ob1 v c1)
                     | Some data \<Rightarrow>
                         (Returned (Some \<lparr>pos = cvs_pos c1, src = data,
                                          dst_order = rgb_order v, src_order = order im,
                                          ov_alpha = opacity ob, ov_fill = True,
                                          ov_flipy = False\<rparr>),
                          put_cache ob1 v c1)))))"

subsection \<open>\<^verbatim>\<open>NormImageP.draw_image\<close>\<close>

text \<open>
  Lines 449 to 458, the body of the first conditional: the alpha channel is split off the
  cutout \<open>img_arr\<close>. The result is the new \<^verbatim>\<open>cache.cutout\<close> and the entry; the
  \<^verbatim>\<open>IndexError\<close> of \<^verbatim>\<open>img_arr[..., a_idx]\<close> comes before any assignment.
\<close>

definition split_alpha ::
  "env \<Rightarrow> rgbmap \<Rightarrow> string \<Rightarrow> ndarray \<Rightarrow> cache_entry \<Rightarrow> error + (ndarray \<times> cache_entry)" where
  "split_alpha E rm image_order img_arr c =
     (if CHR ''A'' \<notin> set image_order then Inr (img_arr, c\<lparr>alpha := None\<rparr>)
      else
        (let (mn, mx) = get_minmax_dtype E (dtype img_arr);
             a_idx = str_index image_order CHR ''A''
         in case take_channel a_idx (pix img_arr) of
              Inl e \<Rightarrow> Inl e
            | Inr ch \<Rightarrow>
                (let a = \<lparr>pdtype = rdtype rm,
                          samples = map (map (\<lambda>s. astype (rdtype rm) (s / mx * maxc rm))) ch\<rparr>;
                     rest = first_channels a_idx img_arr
                 in Inr (rest, c\<lparr>cutout := Some rest, alpha := Some a\<rparr>))))"

text \<open>Lines 444 to 458: the split runs when \<^verbatim>\<open>whence <= 0\<close> or optimize is off.\<close>

definition alpha_stage ::
  "env \<Rightarrow> image_obj \<Rightarrow> rgbmap \<Rightarrow> string \<Rightarrow> real \<Rightarrow> ndarray \<Rightarrow> cache_entry
     \<Rightarrow> error + (ndarray \<times> cache_entry)" where
  "alpha_stage E ob rm image_order whence img_arr c =
     (if whence \<le> 0 \<or> \<not> optimize ob then split_alpha E rm image_order img_arr c
      else Inr (img_arr, c))"

text \<open>\<^verbatim>\<open>NormImageP.apply_visuals\<close>.\<close>

definition apply_visuals ::
  "env \<Rightarrow> image_obj \<Rightarrow> viewer \<Rightarrow> ndarray \<Rightarrow> real \<Rightarrow> real \<Rightarrow> ndarray" where
  "apply_visuals E ob v data vmin vmax =
     (let ac = (case autocuts ob of Some a \<Rightarrow> a | None \<Rightarrow> v_autocuts v);
          (loval, hival) = (case cuts ob of Some lh \<Rightarrow> lh | None \<Rightarrow> v_cuts v)
      in cut_levels E ac data loval hival vmin vmax)"

text \<open>
  Lines 461 to 468: the index array computed from the cutout; \<^verbatim>\<open>np.uint\<close> is the
  64-bit unsigned dtype.
\<close>

definition index_array :: "env \<Rightarrow> image_obj \<Rightarrow> viewer \<Rightarrow> rgbmap \<Rightarrow> ndarray \<Rightarrow> ndarray" where
  "index_array E ob v rm data =
     (let vmax = hash_size rm - 1;
          newdata = apply_visuals E ob v data 0 (of_int vmax)
      in if \<not> issubdtype_uint E (dtype newdata) then astype_array (UInt 64) newdata
         else newdata)"

text \<open>
  Lines 460 to 471. The guard is \<^verbatim>\<open>whence <= 1 or cache.prergb is None or not
  optimize\<close>: the cached index array is kept exactly when there is one and neither of the
  other two conditions holds. The result is \<^verbatim>\<open>cache.prergb\<close> after the stage, and the
  entry.
\<close>

definition visual_stage ::
  "env \<Rightarrow> image_obj \<Rightarrow> viewer \<Rightarrow> rgbmap \<Rightarrow> real \<Rightarrow> ndarray \<Rightarrow> cache_entry
     \<Rightarrow> ndarray \<times> cache_entry" where
  "visual_stage E ob v rm whence data c =
     (case (if whence \<le> 1 \<or> \<not> optimize ob then None else prergb c) of
        Some idx \<Rightarrow> (idx, c)
      | None \<Rightarrow>
          (let idx = index_array E ob v rm data
           in (idx, c\<lparr>prergb := Some idx\<rparr>)))"

text \<open>
  Lines 476 to 484, with the guard \<^verbatim>\<open>whence <= 2 or cache.rgbarr is None or not
  optimize\<close> read the same way. \<^verbatim>\<open>cache.rgbarr\<close> is assigned before the alpha plane is
  written into it, so an exception of that assignment leaves the mapped array, without
  the alpha, in the entry. The result is the exception or \<^verbatim>\<open>cache.rgbarr\<close> after the
  stage, and the entry.
\<close>

definition color_stage ::
  "env \<Rightarrow> image_obj \<Rightarrow> viewer \<Rightarrow> rgbmap \<Rightarrow> string \<Rightarrow> real \<Rightarrow> ndarray \<Rightarrow> cache_entry
     \<Rightarrow> (error + ndarray) \<times> cache_entry" where
  "color_stage E ob v rm image_order whence idx c =
     (case (if whence \<le> 2 \<or> \<not> optimize ob then None else rgbarr c) of
        Some arr \<Rightarrow> (Inr arr, c)
      | None \<Rightarrow>
          (let arr = get_rgbarray E rm idx (rgb_order v) image_order;
               c1 = c\<lparr>rgbarr := Some arr\<rparr>
           in case alpha c of
                None \<Rightarrow> (Inr arr, c1)
              | Some a \<Rightarrow>
                  if CHR ''A'' \<in> set (rgb_order v) then
                    (case set_channel (str_index (rgb_order v) CHR ''A'') a arr of
                       Inl e \<Rightarrow> (Inl e, c1)
                     | Inr arr' \<Rightarrow> (Inr arr', c\<lparr>rgbarr := Some arr'\<rparr>))
                  else (Inr arr, c1)))"

definition draw_image_norm ::
  "env \<Rightarrow> image_obj \<Rightarrow> viewer \<Rightarrow> nat \<times> nat \<times> nat \<Rightarrow> real \<Rightarrow> outcome \<times> image_obj" where
  "draw_image_norm E ob v shape whence =
     (case img ob of
        None \<Rightarrow> (Returned None, ob)
      | Some im \<Rightarrow>
          (case get_cache ob v of
             (c, ob1) \<Rightarrow>
               (case common_draw E ob1 v shape c whence of
                  Inl e \<Rightarrow> (Raised e, ob1)
                | Inr c1 \<Rightarrow>
                    (case cutout c1 of
                       None \<Rightarrow> (Returned None, put_cache ob1 v c1)
                     | Some img_arr \<Rightarrow>
                         (let rm = (case o_rgbmap ob of Some m \<Rightarrow> m | None \<Rightarrow> v_rgbmap v);
                              image_order = order im
                          in case alpha_stage E ob rm image_order whence img_arr c1 of
                               Inl e \<Rightarrow> (Raised e, put_cache ob1 v c1)
                             | Inr (data, c2) \<Rightarrow>
                                 (case visual_stage E ob v rm whence data c2 of
                                    (idx, c3) \<Rightarrow>
                                      (case color_stage E ob v rm image_order whence idx c3 of
                                         (Inl e, c4) \<Rightarrow> (Raised e, put_cache ob1 v c4)
                                       | (Inr arr, c4) \<Rightarrow>
                                           (Returned (Some \<lparr>pos = cvs_pos c4, src = arr,
                                                            dst_order = rgb_order v,
                                                            src_order = rgb_order v,
                                                            ov_alpha = opacity ob,
                                                            ov_fill = True,
                                                            ov_flipy = False\<rparr>),
                                            put_cache ob1 v c4))))))))"

text \<open>\<^verbatim>\<open>draw_image\<close> of an object is the method of its class.\<close>

definition draw_image ::
  "env \<Rightarrow> image_obj \<Rightarrow> viewer \<Rightarrow> nat \<times> nat \<times> nat \<Rightarrow> real \<Rightarrow> outcome \<times> image_obj" where
  "draw_image E ob v shape whence =
     (case kind ob of
        ImageK \<Rightarrow> draw_image_raw E ob v shape whence
      | NormImageK \<Rightarrow> draw_image_norm E ob v shape whence)"

subsection \<open>\<^verbatim>\<open>set_image\<close>\<close>

text \<open>
  \<^verbatim>\<open>make_callback(name, image)\<close> belongs to the callback base class; a call of it
  is recorded as one firing of the callback \<open>name\<close> with that argument.
\<close>

datatype callback = Callback string "image option"

definition make_callback :: "string \<Rightarrow> image option \<Rightarrow> callback list" where
  "make_callback name im = [Callback name im]"

text \<open>
  \<^verbatim>\<open>set_image\<close> has the same body in both classes; the reset it reaches is that of
  the object's class. The result is the callbacks fired and the object.
\<close>

definition set_image :: "image option \<Rightarrow> image_obj \<Rightarrow> callback list \<times> image_obj" where
  "set_image im ob =
     (let ob1 = ob\<lparr>img := im\<rparr>;
          ob2 = reset_optimize ob1
      in (make_callback ''image-set'' im, ob2))"

subsection \<open>Construction\<close>

text \<open>
  \<^verbatim>\<open>ImageP.__init__\<close> and \<^verbatim>\<open>NormImageP.__init__\<close> with their default arguments: an
  object of the given class at \<open>(px, py)\<close> with an empty cache dictionary.
\<close>

definition new_image_obj :: "obj_kind \<Rightarrow> real \<Rightarrow> real \<Rightarrow> image option \<Rightarrow> image_obj" where
  "new_image_obj k px py im =
     \<lparr>kind = k, obj_x = px, obj_y = py, img = im, opacity = 1, scale_x = 1, scale_y = 1,
      interpolation = None, linewidth = 0, showcap = False, flipy = False,
      optimize = True, o_rgbmap = None, cuts = None, autocuts = None,
      cache = Map.empty, zorder = 0, editable = False\<rparr>"

subsection \<open>What the spec says of the interpolation method\<close>

text \<open>
  The spec's words for the choice of the method, to be compared with \<open>select_interp\<close>:
  "explicit object setting if valid, else viewer default, else a fallback of basic if the
  requested method is unrecognized".
\<close>

definition spec_select_interp :: "env \<Rightarrow> image_obj \<Rightarrow> viewer \<Rightarrow> string" where
  "spec_select_interp E ob v =
     (let valid = (\<lambda>s. s \<in> set (interpolation_methods E));
          dflt = (case map_of (settings v) ''interpolation'' of
                    None \<Rightarrow> ''basic'' | Some s \<Rightarrow> s)
      in case interpolation ob of
           Some s \<Rightarrow> if valid s then s else if valid dflt then dflt else ''basic''
         | None \<Rightarrow> if valid dflt then dflt else ''basic'')"

subsection \<open>An instance of the parameters, for concrete evaluations\<close>

text \<open>
  A clip that trims the source region \<open>q1\<close>, \<open>q2\<close>, placed at \<open>dst\<close>, to the window
  \<open>p1\<close>, \<open>p2\<close>; a 1 by 2 RGBA cutout of 8-bit samples; identity cut levels; a colour
  mapper that returns black pixels in the destination order.
\<close>

definition ex_clip :: "point \<Rightarrow> point \<Rightarrow> point \<Rightarrow> point \<Rightarrow> point \<Rightarrow> point \<times> point \<times> point" where
  "ex_clip p1 p2 dst q1 q2 =
     (case (p1, p2, dst, q1, q2) of
        ((x1, y1), (x2, y2), (dx, dy), (a1, b1), (a2, b2)) \<Rightarrow>
          (let ex = max 0 (x1 - dx); ey = max 0 (y1 - dy)
           in ((dx + ex, dy + ey), (a1 + ex, b1 + ey),
               (min a2 (a1 + (x2 - dx)), min b2 (b1 + (y2 - dy))))))"

definition ex_cutout :: ndarray where
  "ex_cutout = \<lparr>dtype = UInt 8, pix = [[[10, 20, 30, 255], [40, 50, 60, 128]]]\<rparr>"

definition ex_env :: env where
  "ex_env =
     \<lparr>interpolation_methods = [''basic'', ''bilinear''],
      calc_image_merge_clip = ex_clip,
      to_data = (\<lambda>p. p),
      get_scaled_cutout2 = (\<lambda>im p1 p2 sc m. ex_cutout),
      cut_levels = (\<lambda>ac a lo hi vmin vmax. a),
      get_rgbarray = (\<lambda>rm idx dorder iorder.
         \<lparr>dtype = rdtype rm, pix = map (map (\<lambda>px. replicate (length dorder) 0)) (pix idx)\<rparr>),
      issubdtype_uint = (\<lambda>dt. case dt of UInt w \<Rightarrow> True | _ \<Rightarrow> False),
      get_minmax_dtype = (\<lambda>dt. case dt of UInt w \<Rightarrow> (0, 2 ^ w - 1) | _ \<Rightarrow> (- 1, 1)),
      move_to_pt = (\<lambda>ob pt. ob\<lparr>obj_x := fst pt, obj_y := snd pt\<rparr>),
      calc_dual_scale_from_pt = (\<lambda>ob pt d. (2, 3))\<rparr>"

definition ex_image :: image where
  "ex_image = \<lparr>width = 3, height = 2, order = ''RGBA''\<rparr>"

definition ex_rgbmap :: rgbmap where
  "ex_rgbmap = \<lparr>maxc = 255, rdtype = UInt 8, hash_size = 256\<rparr>"

text \<open>A viewer whose window covers the image, and one whose window lies far from it.\<close>

definition ex_viewer :: viewer where
  "ex_viewer =
     \<lparr>vid = 7,
      draw_rect = [(- 3 / 2, - 5 / 2), (7 / 2, - 5 / 2), (7 / 2, 9 / 2), (- 3 / 2, 9 / 2)],
      scale_xy = (1, 1), settings = [(''interpolation'', ''bilinear'')],
      pan = (1, 1), data_off = 1 / 2, rgb_order = ''RGBA'',
      v_rgbmap = ex_rgbmap, v_autocuts = 0, v_cuts = (0, 255)\<rparr>"


definition ex_detail :: detail where
  "ex_detail = \<lparr>center_pos = (1, 1), detail_scale_x = 5, detail_scale_y = 7\<rparr>"

text \<open>A cache entry with every stage filled.\<close>

definition ex_entry :: cache_entry where
  "ex_entry =
     \<lparr>cutout = Some \<lparr>dtype = UInt 8, pix = [[[10, 20, 30], [40, 50, 60]]]\<rparr>,
      alpha = Some \<lparr>pdtype = UInt 8, samples = [[255, 128]]\<rparr>,
      prergb = Some \<lparr>dtype = UInt 64, pix = [[[1, 2, 3], [4, 5, 6]]]\<rparr>,
      rgbarr = Some \<lparr>dtype = UInt 8, pix = [[[9, 9, 9, 9], [9, 9, 9, 9]]]\<rparr>,
      drawn = True, cvs_pos = (3, 4)\<rparr>"


section \<open>Theorems\<close>

subsection \<open>The cache dictionary and the two draws\<close>

lemma clip_region_cache_irrelevant:
  "clip_region E (ob\<lparr>cache := m\<rparr>) im bb = clip_region E ob im bb"
  by (simp add: clip_region_def)

lemma select_interp_cache_irrelevant:
  "select_interp E (ob\<lparr>cache := m\<rparr>) v = select_interp E ob v"
  by (simp add: select_interp_def)

lemma common_draw_cache_irrelevant:
  "common_draw E (ob\<lparr>cache := m\<rparr>) v shape c w = common_draw E ob v shape c w"
  by (simp add: common_draw_def clip_region_cache_irrelevant select_interp_cache_irrelevant
      cong: option.case_cong if_cong sum.case_cong prod.case_cong)

lemma get_cache_snd:
  "snd (get_cache ob v) = ob\<lparr>cache := (cache ob)(vid v \<mapsto> fst (get_cache ob v))\<rparr>"
  by (simp add: get_cache_def Let_def map_upd_triv split: option.splits)

lemma get_cache_pair:
  "get_cache ob v = (fst (get_cache ob v), ob\<lparr>cache := (cache ob)(vid v \<mapsto> fst (get_cache ob v))\<rparr>)"
  using get_cache_snd [of ob v] by (cases "get_cache ob v") simp

lemma get_cache_present:
  "cache ob (vid v) = Some c \<Longrightarrow> get_cache ob v = (c, ob)"
  by (simp add: get_cache_def)

lemma put_cache_lookup:
  "cache (put_cache ob v c) (vid v) = Some c"
  by (simp add: put_cache_def)

text \<open>The raw draw, with the cache dictionary read once.\<close>

lemma draw_image_raw_unfold:
  "draw_image_raw E ob v shape w =
     (case img ob of
        None \<Rightarrow> (Returned None, ob)
      | Some im \<Rightarrow>
          (case common_draw E ob v shape (fst (get_cache ob v)) w of
             Inl e \<Rightarrow> (Raised e, put_cache ob v (fst (get_cache ob v)))
           | Inr c1 \<Rightarrow>
               (case cutout c1 of
                  None \<Rightarrow> (Returned None, put_cache ob v c1)
                | Some data \<Rightarrow>
                    (Returned (Some \<lparr>pos = cvs_pos c1, src = data,
                                     dst_order = rgb_order v, src_order = order im,
                                     ov_alpha = opacity ob, ov_fill = True,
                                     ov_flipy = False\<rparr>),
                     put_cache ob v c1))))"
  apply (subst draw_image_raw_def)
  apply (subst get_cache_pair)
  apply (simp add: common_draw_cache_irrelevant put_cache_def Let_def
      cong: option.case_cong sum.case_cong prod.case_cong)
  done


text \<open>The normalized draw, with the cache dictionary read once.\<close>

lemma draw_image_norm_unfold:
  "draw_image_norm E ob v shape w =
     (case img ob of
        None \<Rightarrow> (Returned None, ob)
      | Some im \<Rightarrow>
          (case common_draw E ob v shape (fst (get_cache ob v)) w of
             Inl e \<Rightarrow> (Raised e, put_cache ob v (fst (get_cache ob v)))
           | Inr c1 \<Rightarrow>
               (case cutout c1 of
                  None \<Rightarrow> (Returned None, put_cache ob v c1)
                | Some img_arr \<Rightarrow>
                    (let rm = (case o_rgbmap ob of Some m \<Rightarrow> m | None \<Rightarrow> v_rgbmap v)
                     in case alpha_stage E ob rm (order im) w img_arr c1 of
                          Inl e \<Rightarrow> (Raised e, put_cache ob v c1)
                        | Inr (data, c2) \<Rightarrow>
                            (case visual_stage E ob v rm w data c2 of
                               (idx, c3) \<Rightarrow>
                                 (case color_stage E ob v rm (order im) w idx c3 of
                                    (Inl e, c4) \<Rightarrow> (Raised e, put_cache ob v c4)
                                  | (Inr arr, c4) \<Rightarrow>
                                      (Returned (Some \<lparr>pos = cvs_pos c4, src = arr,
                                                       dst_order = rgb_order v,
                                                       src_order = rgb_order v,
                                                       ov_alpha = opacity ob,
                                                       ov_fill = True,
                                                       ov_flipy = False\<rparr>),
                                       put_cache ob v c4)))))))"
  apply (subst draw_image_norm_def)
  apply (subst get_cache_pair)
  apply (simp add: common_draw_cache_irrelevant put_cache_def Let_def
      cong: option.case_cong sum.case_cong prod.case_cong)
  done

subsection \<open>The bounding box and the interpolation method\<close>

lemma np_min_Min: "rs \<noteq> [] \<Longrightarrow> np_min rs = Min (set rs)"
proof (cases rs)
  case Nil
  assume "rs \<noteq> []"
  with Nil show ?thesis by simp
next
  case (Cons a as)
  have "Min (set (a # as)) = fold min as a"
    by (rule Min.set_eq_fold)
  with Cons show ?thesis
    by (simp add: np_min_def)
qed

lemma np_max_Max: "rs \<noteq> [] \<Longrightarrow> np_max rs = Max (set rs)"
proof (cases rs)
  case Nil
  assume "rs \<noteq> []"
  with Nil show ?thesis by simp
next
  case (Cons a as)
  have "Max (set (a # as)) = fold max as a"
    by (rule Max.set_eq_fold)
  with Cons show ?thesis
    by (simp add: np_max_def)
qed

lemma py_int_of_int: "py_int (of_int k) = k"
  by (simp add: py_int_def)

lemma py_int_nonneg: "0 \<le> r \<Longrightarrow> py_int r = \<lfloor>r\<rfloor>"
  by (simp add: py_int_def)

text \<open>
  What the bounding box is: the maxima are rounded up; the minima are truncated toward
  zero, which is the floor only for a minimum that is not negative.
\<close>

lemma draw_bbox_value:
  assumes "rect \<noteq> []"
  shows "draw_bbox rect =
           Inr (py_int (Min (fst ` set rect)), py_int (Min (snd ` set rect)),
                \<lceil>Max (fst ` set rect)\<rceil>, \<lceil>Max (snd ` set rect)\<rceil>)"
  using assms
  by (simp add: draw_bbox_def Let_def np_min_Min np_max_Max np_ceil_def py_int_of_int)

lemma draw_bbox_outward_nonnegative:
  assumes "rect \<noteq> []" and "0 \<le> Min (fst ` set rect)" and "0 \<le> Min (snd ` set rect)"
  shows "draw_bbox rect =
           Inr (\<lfloor>Min (fst ` set rect)\<rfloor>, \<lfloor>Min (snd ` set rect)\<rfloor>,
                \<lceil>Max (fst ` set rect)\<rceil>, \<lceil>Max (snd ` set rect)\<rceil>)"
  using assms by (simp add: draw_bbox_value py_int_nonneg)

text \<open>
  C5: at a draw rectangle with the corner \<open>(-1.5, -2.5)\<close> the box has \<open>xmin = -1\<close> and
  \<open>ymin = -2\<close>, where the floors are \<open>-2\<close> and \<open>-3\<close>: \<^verbatim>\<open>int()\<close> rounds a negative minimum
  inward. The maxima are rounded outward.
\<close>

theorem draw_bbox_negative_min_inward:
  "draw_bbox [(- 3 / 2, - 5 / 2), (7 / 2, - 5 / 2), (7 / 2, 9 / 2), (- 3 / 2, 9 / 2)]
     = Inr (- 1, - 2, 4, 5)
   \<and> \<lfloor>- 3 / 2 :: real\<rfloor> = - 2 \<and> \<lfloor>- 5 / 2 :: real\<rfloor> = - 3"
  by (simp add: draw_bbox_def np_min_def np_max_def np_ceil_def py_int_def)

text \<open>
  C6 as the spec words it fails: with the explicit setting \<open>bogus\<close>, which is no method,
  and the viewer default \<open>bilinear\<close>, which is one, the spec's rule selects \<open>bilinear\<close>
  and the code selects \<open>basic\<close>.
\<close>

theorem select_interp_skips_viewer_default:
  "select_interp ex_env
     ((new_image_obj ImageK 0 0 (Some ex_image))\<lparr>interpolation := Some ''bogus''\<rparr>) ex_viewer
     = ''basic''
   \<and> spec_select_interp ex_env
     ((new_image_obj ImageK 0 0 (Some ex_image))\<lparr>interpolation := Some ''bogus''\<rparr>) ex_viewer
     = ''bilinear''"
  by (simp add: select_interp_def spec_select_interp_def new_image_obj_def ex_env_def
      ex_viewer_def)

text \<open>
  C6, amended: an explicit setting is used if it is a known method; the viewer's default
  (itself \<open>basic\<close> when the settings have none) is consulted only when the object has
  no explicit setting, and is used if it is a known method; in every other case the
  method is \<open>basic\<close>. The choice is a value for every input, and the cutout stage raises
  nothing for any interpolation name: it raises only for a draw rectangle without points.
\<close>

theorem select_interp_fallback:
  "select_interp E ob v =
     (case interpolation ob of
        Some s \<Rightarrow> if s \<in> set (interpolation_methods E) then s else ''basic''
      | None \<Rightarrow>
          (case map_of (settings v) ''interpolation'' of
             Some s \<Rightarrow> if s \<in> set (interpolation_methods E) then s else ''basic''
           | None \<Rightarrow> ''basic''))
   \<and> (select_interp E ob v \<in> set (interpolation_methods E) \<or> select_interp E ob v = ''basic'')
   \<and> (draw_rect v \<noteq> [] \<longrightarrow> (\<exists>c'. common_draw E ob v shape c whence = Inr c'))"
proof -
  have "draw_rect v \<noteq> [] \<Longrightarrow> \<exists>c'. common_draw E ob v shape c whence = Inr c'"
    by (auto simp: common_draw_def draw_bbox_def Let_def split: option.splits prod.splits)
  then show ?thesis
    by (auto simp: select_interp_def Let_def split: option.splits)
qed

theorem select_interp_fallback_witness:
  "select_interp ex_env
     ((new_image_obj ImageK 0 0 (Some ex_image))\<lparr>interpolation := Some ''bilinear''\<rparr>)
     (ex_viewer\<lparr>settings := []\<rparr>) = ''bilinear''
   \<and> select_interp ex_env (new_image_obj ImageK 0 0 (Some ex_image)) ex_viewer = ''bilinear''
   \<and> select_interp ex_env (new_image_obj ImageK 0 0 (Some ex_image))
       (ex_viewer\<lparr>settings := [(''interpolation'', ''lanczos'')]\<rparr>) = ''basic''
   \<and> (\<exists>c'. common_draw ex_env
         ((new_image_obj ImageK 0 0 (Some ex_image))\<lparr>interpolation := Some ''bogus''\<rparr>)
         ex_viewer (20, 30, 4) empty_bunch 0 = Inr c')"
  using
    select_interp_fallback [of ex_env
      "(new_image_obj ImageK 0 0 (Some ex_image))\<lparr>interpolation := Some ''bilinear''\<rparr>"
      "ex_viewer\<lparr>settings := []\<rparr>" "(20, 30, 4)" empty_bunch 0]
    select_interp_fallback [of ex_env "new_image_obj ImageK 0 0 (Some ex_image)" ex_viewer
      "(20, 30, 4)" empty_bunch 0]
    select_interp_fallback [of ex_env "new_image_obj ImageK 0 0 (Some ex_image)"
      "ex_viewer\<lparr>settings := [(''interpolation'', ''lanczos'')]\<rparr>" "(20, 30, 4)" empty_bunch 0]
    select_interp_fallback [of ex_env
      "(new_image_obj ImageK 0 0 (Some ex_image))\<lparr>interpolation := Some ''bogus''\<rparr>"
      ex_viewer "(20, 30, 4)" empty_bunch 0]
  by (simp add: new_image_obj_def ex_env_def ex_viewer_def)

subsection \<open>Replacing the image\<close>

text \<open>
  C7: \<open>set_image\<close> on a normalized object fires \<open>image-set\<close> once, with the new image;
  the object holds the new image; the cache dictionary keeps its viewers, and in every
  entry the four fields \<open>cutout\<close>, \<open>alpha\<close>, \<open>prergb\<close>, \<open>rgbarr\<close> are \<open>None\<close>.
\<close>

theorem set_image_norm_resets:
  assumes "kind ob = NormImageK"
  shows "fst (set_image im ob) = [Callback ''image-set'' im]
         \<and> img (snd (set_image im ob)) = im
         \<and> dom (cache (snd (set_image im ob))) = dom (cache ob)
         \<and> (\<forall>v c. cache ob v = Some c \<longrightarrow>
               (\<exists>c'. cache (snd (set_image im ob)) v = Some c'
                      \<and> cutout c' = None \<and> alpha c' = None
                      \<and> prergb c' = None \<and> rgbarr c' = None))"
  using assms
  by (auto simp: set_image_def make_callback_def reset_optimize_def reset_cache_def Let_def
      dom_def)

theorem set_image_norm_resets_witness:
  "fst (set_image (Some ex_image)
          ((new_image_obj NormImageK 0 0 None)\<lparr>cache := [7 \<mapsto> ex_entry, 8 \<mapsto> ex_entry]\<rparr>))
     = [Callback ''image-set'' (Some ex_image)]
   \<and> dom (cache (snd (set_image (Some ex_image)
          ((new_image_obj NormImageK 0 0 None)\<lparr>cache := [7 \<mapsto> ex_entry, 8 \<mapsto> ex_entry]\<rparr>))))
     = {7, 8}
   \<and> (\<exists>c'. cache (snd (set_image (Some ex_image)
          ((new_image_obj NormImageK 0 0 None)\<lparr>cache := [7 \<mapsto> ex_entry, 8 \<mapsto> ex_entry]\<rparr>))) 8
              = Some c'
            \<and> cutout c' = None \<and> alpha c' = None \<and> prergb c' = None \<and> rgbarr c' = None)"
proof -
  let ?ob = "(new_image_obj NormImageK 0 0 None)\<lparr>cache := [7 \<mapsto> ex_entry, 8 \<mapsto> ex_entry]\<rparr>"
  have k: "kind ?ob = NormImageK"
    by (simp add: new_image_obj_def)
  have c: "cache ?ob 8 = Some ex_entry"
    by simp
  have d: "dom (cache ?ob) = {7, 8}"
    by auto
  from set_image_norm_resets [OF k, of "Some ex_image"] c d show ?thesis
    by blast
qed

subsection \<open>Rotation and editing\<close>

text \<open>
  C9: for every image canvas object of either class, every angle and every pair of
  offsets, \<open>rotate_obj\<close> ends with the \<^verbatim>\<open>ValueError\<close> "Images cannot be rotated"; it never
  returns an object, rotated or not.
\<close>

theorem rotate_always_raises:
  "rotate_obj ob theta xoff yoff = Inl (ValueError Images_cannot_be_rotated)
   \<and> (\<forall>ob'. rotate_obj ob theta xoff yoff \<noteq> Inr ob')"
  by (simp add: rotate_obj_def)

text \<open>
  C10: with an index outside 0, 1, 2, 3 the call raises and the object it leaves is the
  object it was given: position, scales and every cache entry are untouched, and no
  optimize cache is reset.
\<close>

theorem set_edit_point_invalid_atomic:
  assumes "i \<notin> {0, 1, 2, 3}"
  shows "set_edit_point E i pt d ob = (Some (ValueError (No_point_corresponding_to_index i)), ob)"
  using assms by (simp add: set_edit_point_def)

theorem set_edit_point_invalid_atomic_witness:
  "set_edit_point ex_env 7 (4, 5) ex_detail
     ((new_image_obj NormImageK 0 0 (Some ex_image))\<lparr>cache := [7 \<mapsto> ex_entry]\<rparr>)
   = (Some (ValueError (No_point_corresponding_to_index 7)),
      (new_image_obj NormImageK 0 0 (Some ex_image))\<lparr>cache := [7 \<mapsto> ex_entry]\<rparr>)"
  using set_edit_point_invalid_atomic [of 7 ex_env "(4, 5)" ex_detail
      "(new_image_obj NormImageK 0 0 (Some ex_image))\<lparr>cache := [7 \<mapsto> ex_entry]\<rparr>"]
  by simp



subsection \<open>Off-screen draws\<close>




subsection \<open>The stages of the normalized draw\<close>

lemma color_stage_keeps:
  "cutout (snd (color_stage E ob v rm io w idx c)) = cutout c"
  "alpha (snd (color_stage E ob v rm io w idx c)) = alpha c"
  "prergb (snd (color_stage E ob v rm io w idx c)) = prergb c"
  "cvs_pos (snd (color_stage E ob v rm io w idx c)) = cvs_pos c"
  "drawn (snd (color_stage E ob v rm io w idx c)) = drawn c"
  by (simp_all add: color_stage_def Let_def split: option.splits sum.splits)

lemma visual_stage_keeps:
  "cutout (snd (visual_stage E ob v rm w data c)) = cutout c"
  "alpha (snd (visual_stage E ob v rm w data c)) = alpha c"
  "rgbarr (snd (visual_stage E ob v rm w data c)) = rgbarr c"
  "cvs_pos (snd (visual_stage E ob v rm w data c)) = cvs_pos c"
  "drawn (snd (visual_stage E ob v rm w data c)) = drawn c"
  by (simp_all add: visual_stage_def Let_def split: option.splits)

lemma visual_stage_prergb:
  "prergb (snd (visual_stage E ob v rm w data c)) = Some (fst (visual_stage E ob v rm w data c))"
  by (simp add: visual_stage_def Let_def split: option.splits)

lemma common_draw_keeps:
  "common_draw E ob v shape c w = Inr c' \<Longrightarrow>
     alpha c' = alpha c \<and> prergb c' = prergb c \<and> rgbarr c' = rgbarr c \<and> drawn c' = drawn c"
  by (auto simp: common_draw_def Let_def split: option.splits sum.splits prod.splits if_splits)

lemma alpha_stage_skipped:
  "0 < w \<Longrightarrow> optimize ob \<Longrightarrow> alpha_stage E ob rm io w a c = Inr (a, c)"
  by (simp add: alpha_stage_def)

lemma common_draw_skipped:
  "0 < w \<Longrightarrow> optimize ob \<Longrightarrow> cutout c = Some d \<Longrightarrow> common_draw E ob v shape c w = Inr c"
  by (simp add: common_draw_def split: option.splits)

text \<open>With optimize on and \<^verbatim>\<open>whence > 0\<close> a draw leaves the alpha of the entry alone.\<close>

lemma draw_image_norm_alpha_kept:
  assumes "optimize ob" and "0 < w"
    and "cache (snd (draw_image_norm E ob v shape w)) (vid v) = Some c'"
  shows "alpha c' = alpha (fst (get_cache ob v))"
proof (cases "img ob")
  case None
  with assms(3) have "cache ob (vid v) = Some c'"
    by (simp add: draw_image_norm_unfold)
  then show ?thesis
    by (simp add: get_cache_present)
next
  case (Some im)
  let ?c0 = "fst (get_cache ob v)"
  let ?rm = "case o_rgbmap ob of Some m \<Rightarrow> m | None \<Rightarrow> v_rgbmap v"
  show ?thesis
  proof (cases "common_draw E ob v shape ?c0 w")
    case (Inl e)
    with Some assms(3) show ?thesis
      by (simp add: draw_image_norm_unfold put_cache_lookup)
  next
    case (Inr c1)
    then have a1: "alpha c1 = alpha ?c0"
      by (simp add: common_draw_keeps)
    show ?thesis
    proof (cases "cutout c1")
      case None
      with Some Inr assms(3) a1 show ?thesis
        by (simp add: draw_image_norm_unfold put_cache_lookup)
    next
      case (Some img_arr)
      obtain idx c3 where vs: "visual_stage E ob v ?rm w img_arr c1 = (idx, c3)"
        by (cases "visual_stage E ob v ?rm w img_arr c1")
      obtain r c4 where cs: "color_stage E ob v ?rm (order im) w idx c3 = (r, c4)"
        by (cases "color_stage E ob v ?rm (order im) w idx c3")
      have "alpha c3 = alpha c1"
        using visual_stage_keeps(2) [of E ob v ?rm w img_arr c1] vs by simp
      moreover have "alpha c4 = alpha c3"
        using color_stage_keeps(2) [of E ob v ?rm "order im" w idx c3] cs by simp
      moreover have "c' = c4"
        using \<open>img ob = Some im\<close> Inr Some vs cs assms
        by (cases r) (simp_all add: draw_image_norm_unfold put_cache_lookup alpha_stage_skipped)
      ultimately show ?thesis
        using a1 by simp
    qed
  qed
qed

text \<open>
  C3: a normalized draw with \<^verbatim>\<open>whence == 1\<close>, optimize on and a cutout in the
  viewer's entry keeps the cutout and the alpha plane of the entry, computes the index
  array anew from the cached cutout, and maps the colours with the kept alpha: the
  entry after the draw is what the colour stage makes of the old entry with the new
  index array. More generally, with optimize on and \<^verbatim>\<open>whence > 0\<close> no draw changes the
  alpha plane of the entry: the split runs only when \<^verbatim>\<open>whence <= 0\<close> or optimize is off.
\<close>

theorem alpha_reused_index_recomputed:
  "(kind ob = NormImageK \<and> optimize ob \<and> img ob = Some im
      \<and> cache ob (vid v) = Some c \<and> cutout c = Some data \<longrightarrow>
      (\<exists>c'. cache (snd (draw_image E ob v shape 1)) (vid v) = Some c'
         \<and> c' = snd (color_stage E ob v
                  (case o_rgbmap ob of Some m \<Rightarrow> m | None \<Rightarrow> v_rgbmap v) (order im) 1
                  (index_array E ob v
                     (case o_rgbmap ob of Some m \<Rightarrow> m | None \<Rightarrow> v_rgbmap v) data)
                  (c\<lparr>prergb := Some (index_array E ob v
                     (case o_rgbmap ob of Some m \<Rightarrow> m | None \<Rightarrow> v_rgbmap v) data)\<rparr>))
         \<and> alpha c' = alpha c
         \<and> cutout c' = Some data
         \<and> prergb c' = Some (index_array E ob v
                     (case o_rgbmap ob of Some m \<Rightarrow> m | None \<Rightarrow> v_rgbmap v) data)))
   \<and> (kind ob = NormImageK \<and> optimize ob \<and> 0 < whence \<longrightarrow>
      (\<forall>c'. cache (snd (draw_image E ob v shape whence)) (vid v) = Some c' \<longrightarrow>
          alpha c' = alpha (fst (get_cache ob v))))"
proof (intro conjI impI)
  assume a: "kind ob = NormImageK \<and> optimize ob \<and> img ob = Some im
      \<and> cache ob (vid v) = Some c \<and> cutout c = Some data"
  let ?rm = "case o_rgbmap ob of Some m \<Rightarrow> m | None \<Rightarrow> v_rgbmap v"
  let ?idx = "index_array E ob v ?rm data"
  let ?c3 = "c\<lparr>prergb := Some ?idx\<rparr>"
  let ?c4 = "snd (color_stage E ob v ?rm (order im) 1 ?idx ?c3)"
  have g: "fst (get_cache ob v) = c"
    using a by (simp add: get_cache_present)
  have cd: "common_draw E ob v shape c 1 = Inr c"
    using a by (simp add: common_draw_skipped)
  have al: "alpha_stage E ob ?rm (order im) 1 data c = Inr (data, c)"
    using a by (simp add: alpha_stage_skipped)
  have vs: "visual_stage E ob v ?rm 1 data c = (?idx, ?c3)"
    by (simp add: visual_stage_def Let_def)
  have "cache (snd (draw_image E ob v shape 1)) (vid v) = Some ?c4"
    using a g cd al vs
    by (cases "color_stage E ob v ?rm (order im) 1 ?idx ?c3";
        cases "fst (color_stage E ob v ?rm (order im) 1 ?idx ?c3)")
      (simp_all add: draw_image_def draw_image_norm_unfold put_cache_lookup)
  moreover have "alpha ?c4 = alpha c" "cutout ?c4 = Some data" "prergb ?c4 = Some ?idx"
    using a by (simp_all add: color_stage_keeps)
  ultimately show "\<exists>c'. cache (snd (draw_image E ob v shape 1)) (vid v) = Some c'
         \<and> c' = ?c4 \<and> alpha c' = alpha c \<and> cutout c' = Some data \<and> prergb c' = Some ?idx"
    by simp
next
  assume a: "kind ob = NormImageK \<and> optimize ob \<and> 0 < whence"
  show "\<forall>c'. cache (snd (draw_image E ob v shape whence)) (vid v) = Some c' \<longrightarrow>
          alpha c' = alpha (fst (get_cache ob v))"
    using a draw_image_norm_alpha_kept [of ob whence E v shape]
    by (simp add: draw_image_def)
qed

subsection \<open>A draw repeated\<close>

lemma common_draw_idem:
  "common_draw E ob v shape c w = Inr c1 \<Longrightarrow> common_draw E ob v shape c1 w = Inr c1"
  by (auto simp: common_draw_def Let_def split: option.splits sum.splits prod.splits if_splits)

lemma index_array_cache_irrelevant:
  "index_array E (ob\<lparr>cache := m\<rparr>) v rm data = index_array E ob v rm data"
  by (simp add: index_array_def apply_visuals_def)

lemma stage_cache_irrelevant:
  "alpha_stage E (ob\<lparr>cache := m\<rparr>) rm io w a c = alpha_stage E ob rm io w a c"
  "visual_stage E (ob\<lparr>cache := m\<rparr>) v rm w data c = visual_stage E ob v rm w data c"
  "color_stage E (ob\<lparr>cache := m\<rparr>) v rm io w idx c = color_stage E ob v rm io w idx c"
  by (simp_all add: alpha_stage_def visual_stage_def color_stage_def
      index_array_cache_irrelevant cong: option.case_cong)

lemma get_cache_put_cache:
  "get_cache (put_cache ob v c) v = (c, put_cache ob v c)"
  by (simp add: get_cache_def put_cache_def)

lemma put_cache_put_cache:
  "put_cache (put_cache ob v c) v c' = put_cache ob v c'"
  by (simp add: put_cache_def)

lemma put_cache_fields:
  "img (put_cache ob v c) = img ob"
  "kind (put_cache ob v c) = kind ob"
  "optimize (put_cache ob v c) = optimize ob"
  "o_rgbmap (put_cache ob v c) = o_rgbmap ob"
  "opacity (put_cache ob v c) = opacity ob"
  by (simp_all add: put_cache_def)

lemma stage_put_cache:
  "common_draw E (put_cache ob v' c') v shape c w = common_draw E ob v shape c w"
  "alpha_stage E (put_cache ob v' c') rm io w a c = alpha_stage E ob rm io w a c"
  "visual_stage E (put_cache ob v' c') v rm w data c = visual_stage E ob v rm w data c"
  "color_stage E (put_cache ob v' c') v rm io w idx c = color_stage E ob v rm io w idx c"
  by (simp_all add: put_cache_def common_draw_cache_irrelevant stage_cache_irrelevant)

text \<open>The raw draw repeated: the same outcome, the object unchanged.\<close>

lemma draw_image_raw_again:
  assumes "draw_image_raw E ob v shape w = (r, ob1)"
  shows "draw_image_raw E ob1 v shape w = (r, ob1)"
proof (cases "img ob")
  case None
  with assms show ?thesis
    by (simp add: draw_image_raw_unfold)
next
  case (Some im)
  let ?c0 = "fst (get_cache ob v)"
  show ?thesis
  proof (cases "common_draw E ob v shape ?c0 w")
    case (Inl e)
    have o: "ob1 = put_cache ob v ?c0" "r = Raised e"
      using Some Inl assms by (simp_all add: draw_image_raw_unfold)
    show ?thesis
      using Some Inl unfolding o
      by (simp add: draw_image_raw_unfold get_cache_put_cache put_cache_fields stage_put_cache
          put_cache_put_cache)
  next
    case (Inr c1)
    then have i: "common_draw E ob v shape c1 w = Inr c1"
      by (rule common_draw_idem)
    have o: "ob1 = put_cache ob v c1"
      using Some Inr assms by (simp add: draw_image_raw_unfold split: option.splits)
    show ?thesis
      using Some Inr assms i unfolding o
      by (simp add: draw_image_raw_unfold get_cache_put_cache put_cache_fields stage_put_cache
          put_cache_put_cache split: option.splits)
  qed
qed

lemma color_stage_rgbarr:
  "color_stage E ob v rm io w idx c = (Inr arr, c4) \<Longrightarrow> rgbarr c4 = Some arr"
  by (auto simp: color_stage_def Let_def split: option.splits sum.splits if_splits)

lemma visual_stage_reuse:
  "1 < w \<Longrightarrow> optimize ob \<Longrightarrow> prergb c = Some idx \<Longrightarrow>
     visual_stage E ob v rm w data c = (idx, c)"
  by (simp add: visual_stage_def)

lemma color_stage_reuse:
  "2 < w \<Longrightarrow> optimize ob \<Longrightarrow> rgbarr c = Some arr \<Longrightarrow>
     color_stage E ob v rm io w idx c = (Inr arr, c)"
  by (simp add: color_stage_def)

text \<open>With optimize off every stage computes its fields from the object and the viewer.\<close>

lemma common_draw_nonopt:
  assumes "img ob = Some im" and "\<not> optimize ob"
    and "common_draw E ob v shape c w = Inr c1" and "cvs_pos c' = cvs_pos c1"
  shows "common_draw E ob v shape c' w = Inr (c'\<lparr>cutout := cutout c1\<rparr>)"
  using assms
  by (auto simp: common_draw_def Let_def split: option.splits sum.splits prod.splits if_splits)

lemma split_alpha_transfer:
  assumes "split_alpha E rm io a c = Inr (data, c2)" and "cutout c = Some a"
    and "cutout c' = Some a"
  shows "split_alpha E rm io a c' = Inr (data, c'\<lparr>cutout := cutout c2, alpha := alpha c2\<rparr>)"
  using assms
  by (auto simp: split_alpha_def Let_def split: option.splits sum.splits prod.splits if_splits)

lemma visual_stage_nonopt:
  "\<not> optimize ob \<Longrightarrow>
     visual_stage E ob v rm w data c
       = (index_array E ob v rm data, c\<lparr>prergb := Some (index_array E ob v rm data)\<rparr>)"
  by (simp add: visual_stage_def Let_def)

lemma color_stage_nonopt:
  assumes "\<not> optimize ob" and "color_stage E ob v rm io w idx c = (r, c4)"
    and "alpha c' = alpha c"
  shows "color_stage E ob v rm io w idx c' = (r, c'\<lparr>rgbarr := rgbarr c4\<rparr>)"
  using assms
  by (auto simp: color_stage_def Let_def split: option.splits sum.splits if_splits)

lemma entry_rebuilt:
  "c\<lparr>cutout := cutout c, alpha := alpha c, prergb := prergb c, rgbarr := rgbarr c\<rparr> = c"
  by simp

lemma color_stage_rgbarr_present:
  "\<exists>a. rgbarr (snd (color_stage E ob v rm io w idx c)) = Some a"
  by (auto simp: color_stage_def Let_def split: option.splits sum.splits if_splits)

text \<open>
  The normalized draw repeated with \<^verbatim>\<open>whence > 2\<close>: the object is unchanged, and the
  outcome is the same if the first draw returned.
\<close>

lemma draw_image_norm_again:
  assumes w: "2 < w" and d: "draw_image_norm E ob v shape w = (r, ob1)"
  shows "snd (draw_image_norm E ob1 v shape w) = ob1
         \<and> (\<forall>x. r = Returned x \<longrightarrow> fst (draw_image_norm E ob1 v shape w) = r)"
proof (cases "img ob")
  case None
  with d show ?thesis
    by (auto simp: draw_image_norm_unfold)
next
  case im: (Some im)
  let ?c0 = "fst (get_cache ob v)"
  let ?rm = "case o_rgbmap ob of Some m \<Rightarrow> m | None \<Rightarrow> v_rgbmap v"
  show ?thesis
  proof (cases "common_draw E ob v shape ?c0 w")
    case (Inl e)
    have o: "ob1 = put_cache ob v ?c0" "r = Raised e"
      using im Inl d by (simp_all add: draw_image_norm_unfold)
    show ?thesis
      using im Inl unfolding o
      by (simp add: draw_image_norm_unfold get_cache_put_cache put_cache_fields stage_put_cache
          put_cache_put_cache)
  next
    case c1: (Inr c1)
    have i1: "common_draw E ob v shape c1 w = Inr c1"
      using c1 by (rule common_draw_idem)
    show ?thesis
    proof (cases "cutout c1")
      case None
      have o: "ob1 = put_cache ob v c1" "r = Returned None"
        using im c1 None d by (simp_all add: draw_image_norm_unfold)
      show ?thesis
        using im None i1 unfolding o
        by (simp add: draw_image_norm_unfold get_cache_put_cache put_cache_fields
            stage_put_cache put_cache_put_cache)
    next
      case a: (Some img_arr)
      show ?thesis
      proof (cases "alpha_stage E ob ?rm (order im) w img_arr c1")
        case (Inl e)
        have o: "ob1 = put_cache ob v c1" "r = Raised e"
          using im c1 a Inl d by (simp_all add: draw_image_norm_unfold)
        show ?thesis
          using im a i1 Inl unfolding o
          by (simp add: draw_image_norm_unfold get_cache_put_cache put_cache_fields
              stage_put_cache put_cache_put_cache)
      next
        case (Inr p)
        obtain data c2 where p: "p = (data, c2)"
          by (cases p)
        note al = Inr [unfolded p]
        obtain idx c3 where vs: "visual_stage E ob v ?rm w data c2 = (idx, c3)"
          by (cases "visual_stage E ob v ?rm w data c2")
        obtain q c4 where cs: "color_stage E ob v ?rm (order im) w idx c3 = (q, c4)"
          by (cases "color_stage E ob v ?rm (order im) w idx c3")
        have o: "ob1 = put_cache ob v c4"
          using im c1 a al vs cs d by (cases q) (simp_all add: draw_image_norm_unfold)
        have r: "r = Returned x \<Longrightarrow>
                   \<exists>arr. q = Inr arr
                     \<and> x = Some \<lparr>pos = cvs_pos c4, src = arr, dst_order = rgb_order v,
                                  src_order = rgb_order v, ov_alpha = opacity ob,
                                  ov_fill = True, ov_flipy = False\<rparr>" for x
          using im c1 a al vs cs d by (cases q) (simp_all add: draw_image_norm_unfold)
        have k3: "cutout c3 = cutout c2" "alpha c3 = alpha c2" "cvs_pos c3 = cvs_pos c2"
          "prergb c3 = Some idx"
          using visual_stage_keeps [of E ob v ?rm w data c2]
            visual_stage_prergb [of E ob v ?rm w data c2] vs by simp_all
        have k4: "cutout c4 = cutout c3" "alpha c4 = alpha c3" "cvs_pos c4 = cvs_pos c3"
          "prergb c4 = prergb c3"
          using color_stage_keeps [of E ob v ?rm "order im" w idx c3] cs by simp_all
        obtain held where held: "rgbarr c4 = Some held"
          using color_stage_rgbarr_present [of E ob v ?rm "order im" w idx c3] cs by auto
        have held_arr: "held = arr" if "q = Inr arr" for arr
          using color_stage_rgbarr [of E ob v ?rm "order im" w idx c3 arr c4] cs that held
          by simp
        have second: "\<exists>d1 q'. common_draw E ob v shape c4 w = Inr d1
            \<and> cutout d1 = Some img_arr
            \<and> alpha_stage E ob ?rm (order im) w img_arr d1 = Inr (data, c4)
            \<and> visual_stage E ob v ?rm w data c4 = (idx, c4)
            \<and> color_stage E ob v ?rm (order im) w idx c4 = (q', c4)
            \<and> (\<forall>arr. q = Inr arr \<longrightarrow> q' = Inr arr)"
        proof (cases "optimize ob")
          case True
          have s: "data = img_arr" "c2 = c1"
            using al w True by (simp_all add: alpha_stage_skipped)
          have "cutout c4 = Some img_arr"
            using k3 k4 s a by simp
          moreover from this have "common_draw E ob v shape c4 w = Inr c4"
            using w True by (simp add: common_draw_skipped)
          moreover have "alpha_stage E ob ?rm (order im) w img_arr c4 = Inr (data, c4)"
            using w True s by (simp add: alpha_stage_skipped)
          moreover have "visual_stage E ob v ?rm w data c4 = (idx, c4)"
            using w True k3 k4 by (simp add: visual_stage_reuse)
          moreover have "color_stage E ob v ?rm (order im) w idx c4 = (Inr held, c4)"
            using w True held by (simp add: color_stage_reuse)
          ultimately show ?thesis
            using held_arr by auto
        next
          case False
          have sp: "split_alpha E ?rm (order im) img_arr c1 = Inr (data, c2)"
            using al False by (simp add: alpha_stage_def)
          have kc: "cvs_pos c2 = cvs_pos c1"
            using sp by (auto simp: split_alpha_def Let_def
                split: if_splits sum.splits prod.splits)
          have "cvs_pos c4 = cvs_pos c1"
            using k3 k4 kc by simp
          with im False c1 have cd: "common_draw E ob v shape c4 w = Inr (c4\<lparr>cutout := cutout c1\<rparr>)"
            by (rule common_draw_nonopt)
          let ?d1 = "c4\<lparr>cutout := cutout c1\<rparr>"
          have "split_alpha E ?rm (order im) img_arr ?d1
                  = Inr (data, ?d1\<lparr>cutout := cutout c2, alpha := alpha c2\<rparr>)"
            using sp a by (intro split_alpha_transfer) simp_all
          moreover have "?d1\<lparr>cutout := cutout c2, alpha := alpha c2\<rparr> = c4"
            using k3 k4 entry_rebuilt [of c4] by simp
          ultimately have sp': "split_alpha E ?rm (order im) img_arr ?d1 = Inr (data, c4)"
            by simp
          have vs': "visual_stage E ob v ?rm w data c4 = (idx, c4)"
          proof -
            have "idx = index_array E ob v ?rm data"
              using vs False by (simp add: visual_stage_nonopt)
            moreover have "c4\<lparr>prergb := Some idx\<rparr> = c4"
              using k3 k4 entry_rebuilt [of c4] by simp
            ultimately show ?thesis
              using False by (simp add: visual_stage_nonopt)
          qed
          have "color_stage E ob v ?rm (order im) w idx c4 = (q, c4\<lparr>rgbarr := rgbarr c4\<rparr>)"
            using False cs k4 by (intro color_stage_nonopt) simp_all
          then have cs': "color_stage E ob v ?rm (order im) w idx c4 = (q, c4)"
            by simp
          have "alpha_stage E ob ?rm (order im) w img_arr ?d1 = Inr (data, c4)"
            using sp' False by (simp add: alpha_stage_def)
          with cd a vs' cs' show ?thesis
            by simp
        qed
        then obtain d1 q' where s2: "common_draw E ob v shape c4 w = Inr d1"
          "cutout d1 = Some img_arr"
          "alpha_stage E ob ?rm (order im) w img_arr d1 = Inr (data, c4)"
          "visual_stage E ob v ?rm w data c4 = (idx, c4)"
          "color_stage E ob v ?rm (order im) w idx c4 = (q', c4)"
          and same: "\<forall>arr. q = Inr arr \<longrightarrow> q' = Inr arr"
          by blast
        have again: "snd (draw_image_norm E (put_cache ob v c4) v shape w) = put_cache ob v c4"
          using im s2
          by (cases q')
            (simp_all add: draw_image_norm_unfold get_cache_put_cache put_cache_fields
              stage_put_cache put_cache_put_cache)
        have "fst (draw_image_norm E (put_cache ob v c4) v shape w) = r" if rx: "r = Returned x" for x
        proof -
          obtain arr where q: "q = Inr arr"
            and x: "x = Some \<lparr>pos = cvs_pos c4, src = arr, dst_order = rgb_order v,
                               src_order = rgb_order v, ov_alpha = opacity ob,
                               ov_fill = True, ov_flipy = False\<rparr>"
            using r [OF rx] by blast
          have "q' = Inr arr"
            using same q by simp
          then show ?thesis
            using im s2 rx x
            by (simp add: draw_image_norm_unfold get_cache_put_cache put_cache_fields
                stage_put_cache put_cache_put_cache)
        qed
        with again show ?thesis
          unfolding o by simp
      qed
    qed
  qed
qed

lemma draw_image_kind:
  "kind (snd (draw_image E ob v shape w)) = kind ob"
proof -
  have "kind (snd (draw_image_raw E ob v shape w)) = kind ob"
    by (simp add: draw_image_raw_unfold put_cache_fields split: option.splits sum.splits)
  moreover have "kind (snd (draw_image_norm E ob v shape w)) = kind ob"
    by (simp add: draw_image_norm_unfold put_cache_fields Let_def
        split: option.splits sum.splits prod.splits)
  ultimately show ?thesis
    by (simp add: draw_image_def split: obj_kind.splits)
qed

text \<open>
  C1: let a draw with \<^verbatim>\<open>whence > 2\<close> be made, and let the same draw (same viewer, same
  shape of the destination array, same \<^verbatim>\<open>whence\<close>) be repeated on the object as the
  first draw left it. Then the second draw leaves the object as it found it, so every
  field of every cache entry is as the first draw left it; and if the first draw
  returned, the second returns having made the same call of the compositor: the same
  source array at the same position, or no call if the first made none. This holds for
  both classes.
\<close>

theorem draw_image_twice_same:
  assumes "2 < whence"
  shows "snd (draw_image E (snd (draw_image E ob v shape whence)) v shape whence)
           = snd (draw_image E ob v shape whence)
         \<and> (\<forall>r. fst (draw_image E ob v shape whence) = Returned r \<longrightarrow>
               fst (draw_image E (snd (draw_image E ob v shape whence)) v shape whence)
                 = Returned r)"
proof -
  let ?ob1 = "snd (draw_image E ob v shape whence)"
  have k: "kind ?ob1 = kind ob"
    by (rule draw_image_kind)
  show ?thesis
  proof (cases "kind ob")
    case ImageK
    then have "draw_image_raw E ob v shape whence = (fst (draw_image E ob v shape whence), ?ob1)"
      by (simp add: draw_image_def)
    then have "draw_image_raw E ?ob1 v shape whence
                 = (fst (draw_image E ob v shape whence), ?ob1)"
      by (rule draw_image_raw_again)
    with ImageK k show ?thesis
      by (simp add: draw_image_def)
  next
    case NormImageK
    then have "draw_image_norm E ob v shape whence
                 = (fst (draw_image E ob v shape whence), ?ob1)"
      by (simp add: draw_image_def)
    with assms have "snd (draw_image_norm E ?ob1 v shape whence) = ?ob1
         \<and> (\<forall>x. fst (draw_image E ob v shape whence) = Returned x \<longrightarrow>
               fst (draw_image_norm E ?ob1 v shape whence) = fst (draw_image E ob v shape whence))"
      by (rule draw_image_norm_again)
    with NormImageK k show ?thesis
      by (simp add: draw_image_def)
  qed
qed

lemma ex_draw_bbox: "draw_bbox (draw_rect ex_viewer) = Inr (- 1, - 2, 4, 5)"
  by (simp add: ex_viewer_def draw_bbox_def np_min_def np_max_def np_ceil_def py_int_def)

lemma ex_clip_region:
  "clip_region ex_env (new_image_obj k 0 0 (Some ex_image)) ex_image (- 1, - 2, 4, 5)
     = ((0, 0), (0, 0), (2, 1))"
  by (simp add: clip_region_def ex_env_def ex_clip_def ex_image_def new_image_obj_def)

lemma ex_cvs_pos: "calc_cvs_pos ex_viewer (20, 30, 4) (0, 0) = (14, 8)"
  by (simp add: calc_cvs_pos_def ex_viewer_def np_round_def py_int_def Let_def)

lemma common_draw_onscreen:
  assumes "img ob = Some im"
    and "w \<le> 0 \<or> cutout c = None \<or> \<not> optimize ob"
    and "draw_bbox (draw_rect v) = Inr bb"
    and "clip_region E ob im bb = (dst, (a1, b1), (a2, b2))"
    and "0 < a2 - a1" and "0 < b2 - b1"
  shows "common_draw E ob v shape c w =
           Inr (c\<lparr>cutout := Some
                      ((if flipy ob then flipud else (\<lambda>a. a))
                         (get_scaled_cutout2 E im (a1, b1) (a2, b2)
                            (fst (scale_xy v) * scale_x ob, snd (scale_xy v) * scale_y ob)
                            (select_interp E ob v))),
                  cvs_pos := calc_cvs_pos v shape dst\<rparr>)"
  using assms by (auto simp: common_draw_def Let_def split: prod.splits)

lemma ex_common_draw:
  "common_draw ex_env (new_image_obj k 0 0 (Some ex_image)) ex_viewer (20, 30, 4)
       (reset_cache k empty_bunch) 3
     = Inr ((reset_cache k empty_bunch)\<lparr>cutout := Some ex_cutout, cvs_pos := (14, 8)\<rparr>)"
proof -
  let ?ob = "new_image_obj k 0 0 (Some ex_image)"
  have i: "img ?ob = Some ex_image"
    by (simp add: new_image_obj_def)
  have g: "(3::real) \<le> 0 \<or> cutout (reset_cache k empty_bunch) = None \<or> \<not> optimize ?ob"
    by (simp add: reset_cache_def split: obj_kind.splits)
  have f: "\<not> flipy ?ob"
    by (simp add: new_image_obj_def)
  have s: "get_scaled_cutout2 ex_env = (\<lambda>im p1 p2 sc m. ex_cutout)"
    by (simp add: ex_env_def)
  show ?thesis
    using common_draw_onscreen [OF i g ex_draw_bbox ex_clip_region, of "(20, 30, 4)"] f
    by (simp add: ex_cvs_pos s)
qed

lemma ex_index_array:
  "index_array ex_env ((new_image_obj k 0 0 (Some ex_image))\<lparr>cache := m\<rparr>) ex_viewer ex_rgbmap
     \<lparr>dtype = UInt 8, pix = p\<rparr> = \<lparr>dtype = UInt 8, pix = p\<rparr>"
  by (simp add: index_array_def apply_visuals_def ex_env_def new_image_obj_def Let_def)

lemma ex_rm:
  "(case o_rgbmap ((new_image_obj k 0 0 (Some ex_image))\<lparr>cache := m\<rparr>) of
      Some r \<Rightarrow> r | None \<Rightarrow> v_rgbmap ex_viewer) = ex_rgbmap"
  by (simp add: new_image_obj_def ex_viewer_def)

text \<open>A normalized draw in which every stage succeeds.\<close>

lemma draw_image_norm_steps:
  assumes "img ob = Some im"
    and "rm = (case o_rgbmap ob of Some m \<Rightarrow> m | None \<Rightarrow> v_rgbmap v)"
    and "common_draw E ob v shape (fst (get_cache ob v)) w = Inr c1"
    and "cutout c1 = Some a"
    and "alpha_stage E ob rm (order im) w a c1 = Inr (data, c2)"
    and "visual_stage E ob v rm w data c2 = (idx, c3)"
    and "color_stage E ob v rm (order im) w idx c3 = (Inr arr, c4)"
  shows "draw_image_norm E ob v shape w =
           (Returned (Some \<lparr>pos = cvs_pos c4, src = arr, dst_order = rgb_order v,
                            src_order = rgb_order v, ov_alpha = opacity ob,
                            ov_fill = True, ov_flipy = False\<rparr>),
            put_cache ob v c4)"
  using assms by (simp add: draw_image_norm_unfold)

theorem draw_image_twice_same_witness:
  "draw_image ex_env
       (snd (draw_image ex_env (new_image_obj NormImageK 0 0 (Some ex_image)) ex_viewer
               (20, 30, 4) 3))
       ex_viewer (20, 30, 4) 3
     = draw_image ex_env (new_image_obj NormImageK 0 0 (Some ex_image)) ex_viewer (20, 30, 4) 3
   \<and> fst (draw_image ex_env (new_image_obj NormImageK 0 0 (Some ex_image)) ex_viewer
            (20, 30, 4) 3)
     = Returned (Some \<lparr>pos = (14, 8),
                       src = \<lparr>dtype = UInt 8, pix = [[[0, 0, 0, 0], [0, 0, 0, 0]]]\<rparr>,
                       dst_order = ''RGBA'', src_order = ''RGBA'', ov_alpha = 1,
                       ov_fill = True, ov_flipy = False\<rparr>)"
proof -
  let ?ob = "new_image_obj NormImageK 0 0 (Some ex_image)"
  let ?r = "Some \<lparr>pos = (14, 8),
                   src = \<lparr>dtype = UInt 8, pix = [[[0, 0, 0, 0], [0, 0, 0, 0]]]\<rparr>,
                   dst_order = ''RGBA'', src_order = ''RGBA'', ov_alpha = 1,
                   ov_fill = True, ov_flipy = False\<rparr>"
  have g: "fst (get_cache ?ob ex_viewer) = reset_cache NormImageK empty_bunch"
    by (simp add: get_cache_def new_image_obj_def Let_def)
  have i: "img ?ob = Some ex_image" "optimize ?ob" "opacity ?ob = 1"
    by (simp_all add: new_image_obj_def)
  have rm: "(case o_rgbmap ?ob of Some r \<Rightarrow> r | None \<Rightarrow> v_rgbmap ex_viewer) = ex_rgbmap"
    by (simp add: new_image_obj_def ex_viewer_def)
  have ix: "index_array ex_env ?ob ex_viewer ex_rgbmap ex_cutout = ex_cutout"
    by (simp add: index_array_def apply_visuals_def ex_env_def new_image_obj_def Let_def
        ex_cutout_def)
  have ga: "get_rgbarray ex_env ex_rgbmap ex_cutout (rgb_order ex_viewer) (order ex_image)
              = \<lparr>dtype = UInt 8, pix = [[[0, 0, 0, 0], [0, 0, 0, 0]]]\<rparr>"
    by (simp add: ex_env_def ex_rgbmap_def ex_cutout_def ex_viewer_def)
  have ro: "rgb_order ex_viewer = ''RGBA''"
    by (simp add: ex_viewer_def)
  let ?c0 = "reset_cache NormImageK empty_bunch"
  let ?c1 = "?c0\<lparr>cutout := Some ex_cutout, cvs_pos := (14, 8)\<rparr>"
  let ?c3 = "?c1\<lparr>prergb := Some ex_cutout\<rparr>"
  let ?arr = "\<lparr>dtype = UInt 8, pix = [[[0, 0, 0, 0], [0, 0, 0, 0 :: real]]]\<rparr>"
  let ?c4 = "?c3\<lparr>rgbarr := Some ?arr\<rparr>"
  have s1: "common_draw ex_env ?ob ex_viewer (20, 30, 4) (fst (get_cache ?ob ex_viewer)) 3
              = Inr ?c1"
    unfolding g by (rule ex_common_draw)
  have s2: "cutout ?c1 = Some ex_cutout"
    by simp
  have s3: "alpha_stage ex_env ?ob ex_rgbmap (order ex_image) 3 ex_cutout ?c1
              = Inr (ex_cutout, ?c1)"
    using i by (simp add: alpha_stage_def)
  have s4: "visual_stage ex_env ?ob ex_viewer ex_rgbmap 3 ex_cutout ?c1 = (ex_cutout, ?c3)"
    using i by (simp add: visual_stage_def ix reset_cache_def empty_bunch_def)
  have s5: "color_stage ex_env ?ob ex_viewer ex_rgbmap (order ex_image) 3 ex_cutout ?c3
              = (Inr ?arr, ?c4)"
    using i by (simp add: color_stage_def ga reset_cache_def empty_bunch_def Let_def)
  have "draw_image_norm ex_env ?ob ex_viewer (20, 30, 4) 3
          = (Returned (Some \<lparr>pos = cvs_pos ?c4, src = ?arr, dst_order = rgb_order ex_viewer,
                             src_order = rgb_order ex_viewer, ov_alpha = opacity ?ob,
                             ov_fill = True, ov_flipy = False\<rparr>),
             put_cache ?ob ex_viewer ?c4)"
    using i(1) rm [symmetric] s1 s2 s3 s4 s5 by (rule draw_image_norm_steps)
  then have f: "fst (draw_image ex_env ?ob ex_viewer (20, 30, 4) 3) = Returned ?r"
    using i ro by (simp add: draw_image_def new_image_obj_def)
  have t: "snd (draw_image ex_env (snd (draw_image ex_env ?ob ex_viewer (20, 30, 4) 3))
                  ex_viewer (20, 30, 4) 3)
             = snd (draw_image ex_env ?ob ex_viewer (20, 30, 4) 3)"
    "fst (draw_image ex_env (snd (draw_image ex_env ?ob ex_viewer (20, 30, 4) 3))
            ex_viewer (20, 30, 4) 3)
       = Returned ?r"
    using draw_image_twice_same [of 3 ex_env ?ob ex_viewer "(20, 30, 4)"] f by simp_all
  have "draw_image ex_env (snd (draw_image ex_env ?ob ex_viewer (20, 30, 4) 3))
             ex_viewer (20, 30, 4) 3
           = draw_image ex_env ?ob ex_viewer (20, 30, 4) 3"
    using t f by (simp add: prod_eq_iff)
  from this f show ?thesis
    by (rule conjI)
qed

theorem alpha_reused_index_recomputed_witness:
  "\<exists>c'. cache (snd (draw_image ex_env
                ((new_image_obj NormImageK 0 0 (Some ex_image))\<lparr>cache := [7 \<mapsto> ex_entry]\<rparr>)
                ex_viewer (20, 30, 4) 1)) 7 = Some c'
      \<and> alpha c' = Some \<lparr>pdtype = UInt 8, samples = [[255, 128]]\<rparr>
      \<and> cutout c' = Some \<lparr>dtype = UInt 8, pix = [[[10, 20, 30], [40, 50, 60]]]\<rparr>
      \<and> prergb c' = Some \<lparr>dtype = UInt 8, pix = [[[10, 20, 30], [40, 50, 60]]]\<rparr>"
proof -
  let ?ob = "(new_image_obj NormImageK 0 0 (Some ex_image))\<lparr>cache := [7 \<mapsto> ex_entry]\<rparr>"
  let ?data = "\<lparr>dtype = UInt 8, pix = [[[10, 20, 30], [40, 50, 60 :: real]]]\<rparr>"
  have h: "kind ?ob = NormImageK \<and> optimize ?ob \<and> img ?ob = Some ex_image
      \<and> cache ?ob (vid ex_viewer) = Some ex_entry \<and> cutout ex_entry = Some ?data"
    by (simp add: new_image_obj_def ex_viewer_def ex_entry_def)
  have v: "vid ex_viewer = 7"
    by (simp add: ex_viewer_def)
  have a: "alpha ex_entry = Some \<lparr>pdtype = UInt 8, samples = [[255, 128]]\<rparr>"
    by (simp add: ex_entry_def)
  from alpha_reused_index_recomputed [of ?ob ex_image ex_viewer ex_entry ?data ex_env
      "(20, 30, 4)" 3] h
  obtain c' where
    "cache (snd (draw_image ex_env ?ob ex_viewer (20, 30, 4) 1)) (vid ex_viewer) = Some c'"
    "alpha c' = alpha ex_entry" "cutout c' = Some ?data"
    "prergb c' = Some (index_array ex_env ?ob ex_viewer
        (case o_rgbmap ?ob of Some m \<Rightarrow> m | None \<Rightarrow> v_rgbmap ex_viewer) ?data)"
    by blast
  then show ?thesis
    unfolding ex_rm ex_index_array v a by blast
qed

subsection \<open>The alpha plane split off and written back\<close>











end
